theory Spec2Isabelle
  imports Main "HOL-Library.Sublist"
begin

section \<open>The NOTAM command-line adapter (wrapper.js)\<close>

text \<open>
  The script reads \<^verbatim>\<open>process.argv[2]\<close>, loads the named file as UTF-8 text, hands the
  text to \<^verbatim>\<open>notamDecoder.decode\<close>, and prints either the JSON serialisation of the
  decoded value on standard output or a JSON error object on standard error.

  Everything the script receives from outside is a field of the environment: the
  argument vector, the file system (through \<^verbatim>\<open>fs.readFileSync\<close>), the decode
  capability of the module \<^verbatim>\<open>./notam-decoder.js\<close>, and \<^verbatim>\<open>JSON.stringify\<close> on the
  opaque decoded value. Resolving the two \<^verbatim>\<open>require\<close> calls of lines 1 and 2 is taken
  as part of starting the program: the model begins at line 4 with both modules loaded.
  The collaborators return or throw, as section 6 of the specification has them, and
  they terminate. In \<open>wrapper\<close> they write nothing to the streams themselves; the
  variant \<open>wrapper_with\<close> adds the writes of the decode capability.
\<close>

subsection \<open>Thrown values and their string conversion\<close>

text \<open>
  A JavaScript \<^verbatim>\<open>throw\<close> accepts any value. The catch block of the script looks at
  the thrown value only through \<^verbatim>\<open>e.toString()\<close>, so thrown values are classified by
  what that call does:
  \<^item> \<open>Nullish\<close>: \<^verbatim>\<open>null\<close> or \<^verbatim>\<open>undefined\<close>; reading the property \<^verbatim>\<open>toString\<close>
    raises a TypeError;
  \<^item> \<open>ErrorObject name message\<close>: an Error instance with the inherited
    \<^verbatim>\<open>Error.prototype.toString\<close>;
  \<^item> \<open>Stringable s\<close>: any other value whose \<^verbatim>\<open>toString()\<close> returns the string \<open>s\<close>
    (a primitive, a plain object, an error object with a method of its own);
  \<^item> \<open>Unstringable\<close>: an object whose \<^verbatim>\<open>toString\<close> is absent, is not callable, or
    raises.
  Strings are sequences of bytes (the UTF-8 form in which they are read from the file and
  written to the streams).
\<close>

datatype js_thrown =
    Nullish
  | ErrorObject string string
  | Stringable string
  | Unstringable

text \<open>\<^verbatim>\<open>Error.prototype.toString\<close>: the name alone, the message alone, or both
  separated by a colon and a space.\<close>

definition error_toString :: "string \<Rightarrow> string \<Rightarrow> string" where
  "error_toString name msg =
     (if name = [] then msg
      else if msg = [] then name
      else name @ '': '' @ msg)"

text \<open>\<^verbatim>\<open>e.toString()\<close>; \<open>None\<close> when the call itself raises.\<close>

fun toString :: "js_thrown \<Rightarrow> string option" where
  "toString Nullish = None"
| "toString (ErrorObject name msg) = Some (error_toString name msg)"
| "toString (Stringable s) = Some s"
| "toString Unstringable = None"

subsection \<open>JSON.stringify of the error object\<close>

text \<open>
  The error object \<^verbatim>\<open>{error: s}\<close> has one key and a string value, so its serialisation
  is the key, a colon and the quoted string between braces, without white space. Quoting
  escapes the double quote, the backslash and the control characters below U+0020 (the
  five with a short form by that form, the others as four lower-case hexadecimal digits)
  and copies every other byte.
\<close>

definition hex_digit :: "nat \<Rightarrow> char" where
  "hex_digit n = ''0123456789abcdef'' ! (n mod 16)"

definition json_escape :: "char \<Rightarrow> string" where
  "json_escape c =
     (if c = CHR 0x08 then [CHR 0x5C, CHR ''b'']
      else if c = CHR 0x09 then [CHR 0x5C, CHR ''t'']
      else if c = CHR 0x0A then [CHR 0x5C, CHR ''n'']
      else if c = CHR 0x0C then [CHR 0x5C, CHR ''f'']
      else if c = CHR 0x0D then [CHR 0x5C, CHR ''r'']
      else if c = CHR 0x22 then [CHR 0x5C, CHR 0x22]
      else if c = CHR 0x5C then [CHR 0x5C, CHR 0x5C]
      else if (of_char c :: nat) < 0x20
        then [CHR 0x5C, CHR ''u'', CHR ''0'', CHR ''0'',
              hex_digit ((of_char c :: nat) div 16), hex_digit (of_char c :: nat)]
      else [c])"

definition json_quote :: "string \<Rightarrow> string" where
  "json_quote s = [CHR 0x22] @ concat (map json_escape s) @ [CHR 0x22]"

definition stringify_error_object :: "string \<Rightarrow> string" where
  "stringify_error_object s =
     [CHR ''{'', CHR 0x22] @ ''error'' @ [CHR 0x22, CHR '':''] @ json_quote s @ [CHR ''}'']"

subsection \<open>The console\<close>

text \<open>
  \<^verbatim>\<open>console.log\<close> and \<^verbatim>\<open>console.error\<close> with one argument write the argument and a
  newline. The argument is a string, or \<^verbatim>\<open>undefined\<close> when \<^verbatim>\<open>JSON.stringify\<close> has
  nothing to serialise, which the console prints as the word \<^verbatim>\<open>undefined\<close>.
\<close>

definition console_line :: "string option \<Rightarrow> string" where
  "console_line v = (case v of None \<Rightarrow> ''undefined'' | Some s \<Rightarrow> s) @ [CHR 0x0A]"

subsection \<open>Environment, effects and the script\<close>

record 'v env =
  argv :: "string list"
  readFileSync :: "string \<Rightarrow> js_thrown + string"
  decode :: "string \<Rightarrow> js_thrown + 'v"
  JSON_stringify :: "'v \<Rightarrow> js_thrown + string option"

datatype event =
    ReadFile string
  | WriteStdout string
  | WriteStderr string

datatype ending =
    Exit nat
  | Returned
  | Uncaught

text \<open>\<^verbatim>\<open>process.argv[2]\<close>: \<^verbatim>\<open>undefined\<close> (\<open>None\<close>) beyond the end of the array.\<close>

definition inputPath :: "'v env \<Rightarrow> string option" where
  "inputPath e = (if 2 < length (argv e) then Some (argv e ! 2) else None)"

text \<open>Lines 5 to 8: the error line and \<^verbatim>\<open>process.exit(1)\<close>.\<close>

definition no_input :: "event list \<times> ending" where
  "no_input =
     ([WriteStderr (console_line (Some (stringify_error_object ''No input file provided'')))],
      Exit 1)"

text \<open>
  Lines 11 to 13, the body of \<^verbatim>\<open>try\<close>: the events it performs, and the thrown value
  when one of its three calls raises. The read is an event whether or not it succeeds.
\<close>

definition try_block :: "'v env \<Rightarrow> string \<Rightarrow> event list \<times> (js_thrown + unit)" where
  "try_block e p =
     (case readFileSync e p of
        Inl x \<Rightarrow> ([ReadFile p], Inl x)
      | Inr rawNotam \<Rightarrow>
          (case decode e rawNotam of
             Inl x \<Rightarrow> ([ReadFile p], Inl x)
           | Inr decoded \<Rightarrow>
               (case JSON_stringify e decoded of
                  Inl x \<Rightarrow> ([ReadFile p], Inl x)
                | Inr js \<Rightarrow> ([ReadFile p, WriteStdout (console_line js)], Inr ()))))"

text \<open>
  Lines 15 and 16, the body of \<^verbatim>\<open>catch\<close>. The argument of \<^verbatim>\<open>console.error\<close> is
  evaluated first: when \<^verbatim>\<open>e.toString()\<close> raises, nothing is written and the new
  exception leaves the script.
\<close>

definition catch_block :: "js_thrown \<Rightarrow> event list \<times> ending" where
  "catch_block x =
     (case toString x of
        None \<Rightarrow> ([], Uncaught)
      | Some s \<Rightarrow> ([WriteStderr (console_line (Some (stringify_error_object s)))], Exit 1))"

text \<open>
  The whole script. \<^verbatim>\<open>!inputPath\<close> holds for \<^verbatim>\<open>undefined\<close> and for the empty
  string, the only falsy values an element of the argument vector can have.
\<close>

definition wrapper :: "'v env \<Rightarrow> event list \<times> ending" where
  "wrapper e =
     (case inputPath e of
        None \<Rightarrow> no_input
      | Some p \<Rightarrow>
          if p = [] then no_input
          else
            (case try_block e p of
               (evs, Inr _) \<Rightarrow> (evs, Returned)
             | (evs, Inl x) \<Rightarrow> (case catch_block x of (evs', fin) \<Rightarrow> (evs @ evs', fin))))"

subsection \<open>The process as seen from outside\<close>

text \<open>
  An exception that leaves the script reaches the runtime's default handler, which
  prints a report of the exception (the raw stack trace) on standard error, ending with
  a newline, and ends the process with status 1. The text of the report belongs to the
  runtime and is a parameter. A script that returns ends with status 0.
\<close>

definition process_events :: "string \<Rightarrow> 'v env \<Rightarrow> event list" where
  "process_events report e =
     (case wrapper e of
        (evs, Uncaught) \<Rightarrow> evs @ [WriteStderr (report @ [CHR 0x0A])]
      | (evs, _) \<Rightarrow> evs)"

definition exit_status :: "'v env \<Rightarrow> nat" where
  "exit_status e =
     (case snd (wrapper e) of Exit n \<Rightarrow> n | Returned \<Rightarrow> 0 | Uncaught \<Rightarrow> 1)"

fun stdout_of :: "event list \<Rightarrow> string" where
  "stdout_of [] = []"
| "stdout_of (WriteStdout s # evs) = s @ stdout_of evs"
| "stdout_of (_ # evs) = stdout_of evs"

fun stderr_of :: "event list \<Rightarrow> string" where
  "stderr_of [] = []"
| "stderr_of (WriteStderr s # evs) = s @ stderr_of evs"
| "stderr_of (_ # evs) = stderr_of evs"

fun is_read :: "event \<Rightarrow> bool" where
  "is_read (ReadFile _) = True"
| "is_read _ = False"

fun is_write :: "event \<Rightarrow> bool" where
  "is_write (ReadFile _) = False"
| "is_write _ = True"

definition stdout :: "string \<Rightarrow> 'v env \<Rightarrow> string" where
  "stdout report e = stdout_of (process_events report e)"

definition stderr :: "string \<Rightarrow> 'v env \<Rightarrow> string" where
  "stderr report e = stderr_of (process_events report e)"

subsection \<open>A decode capability that writes\<close>

text \<open>
  The decode capability is code of another module and can write to the streams while
  it runs; the script does nothing about that. In this variant of the script's run,
  \<open>dw t\<close> is the list of writes the capability performs when it is called on the text
  \<open>t\<close>, whether it then returns or throws; they come after the read and before the
  script's own write. With \<open>silent\<close> the variant is \<open>wrapper\<close> itself.
\<close>

definition try_block_with ::
  "(string \<Rightarrow> event list) \<Rightarrow> 'v env \<Rightarrow> string \<Rightarrow> event list \<times> (js_thrown + unit)" where
  "try_block_with dw e p =
     (case readFileSync e p of
        Inl x \<Rightarrow> ([ReadFile p], Inl x)
      | Inr rawNotam \<Rightarrow>
          (case decode e rawNotam of
             Inl x \<Rightarrow> (ReadFile p # dw rawNotam, Inl x)
           | Inr decoded \<Rightarrow>
               (case JSON_stringify e decoded of
                  Inl x \<Rightarrow> (ReadFile p # dw rawNotam, Inl x)
                | Inr js \<Rightarrow>
                    (ReadFile p # dw rawNotam @ [WriteStdout (console_line js)], Inr ()))))"

definition wrapper_with :: "(string \<Rightarrow> event list) \<Rightarrow> 'v env \<Rightarrow> event list \<times> ending" where
  "wrapper_with dw e =
     (case inputPath e of
        None \<Rightarrow> no_input
      | Some p \<Rightarrow>
          if p = [] then no_input
          else
            (case try_block_with dw e p of
               (evs, Inr _) \<Rightarrow> (evs, Returned)
             | (evs, Inl x) \<Rightarrow> (case catch_block x of (evs', fin) \<Rightarrow> (evs @ evs', fin))))"

definition silent :: "string \<Rightarrow> event list" where
  "silent t = []"

subsection \<open>Example environments\<close>

text \<open>
  A small file system and a small decode capability, on which the theorems are
  evaluated. Decoded values are an identifier or a value with a cycle, on which
  \<^verbatim>\<open>JSON.stringify\<close> raises its TypeError. The text \<^verbatim>\<open>NULL\<close> makes the decode
  capability throw \<^verbatim>\<open>null\<close>.
\<close>

datatype sample_value = Decoded string | Circular

definition sample_read :: "string \<Rightarrow> js_thrown + string" where
  "sample_read p =
     (if p = ''notam.txt'' then Inr ''A0001/24 NOTAMN''
      else if p = ''loop.txt'' then Inr ''LOOP''
      else if p = ''null.txt'' then Inr ''NULL''
      else if p = ''bad.txt'' then Inr ''garbage''
      else Inl (ErrorObject ''Error'' ''ENOENT: no such file or directory''))"

definition sample_decode :: "string \<Rightarrow> js_thrown + sample_value" where
  "sample_decode t =
     (if t = ''A0001/24 NOTAMN'' then Inr (Decoded ''A0001/24'')
      else if t = ''LOOP'' then Inr Circular
      else if t = ''NULL'' then Inl Nullish
      else Inl (ErrorObject ''Error'' ''Invalid NOTAM''))"

fun sample_stringify :: "sample_value \<Rightarrow> js_thrown + string option" where
  "sample_stringify (Decoded s) = Inr (Some (json_quote s))"
| "sample_stringify Circular =
     Inl (ErrorObject ''TypeError'' ''Converting circular structure to JSON'')"

definition env_of :: "string list \<Rightarrow> sample_value env" where
  "env_of args =
     \<lparr>argv = [''node'', ''wrapper.js''] @ args, readFileSync = sample_read,
      decode = sample_decode, JSON_stringify = sample_stringify\<rparr>"

definition other_files_env :: "string list \<Rightarrow> sample_value env" where
  "other_files_env args =
     (env_of args)\<lparr>readFileSync := sample_read(''other.txt'' := Inr ''B0002/24 NOTAMN'')\<rparr>"

text \<open>A decode capability that prints a warning on standard error for the first text.\<close>

definition sample_decode_writes :: "string \<Rightarrow> event list" where
  "sample_decode_writes t =
     (if t = ''A0001/24 NOTAMN'' then [WriteStderr ''warning: unknown series\<newline>''] else [])"

section \<open>Properties\<close>

subsection \<open>The results of the script\<close>

lemma console_line_nonempty: "console_line v \<noteq> []"
  by (simp add: console_line_def)

lemma no_input_line:
  \<open>console_line (Some (stringify_error_object ''No input file provided''))
     = ''{"error":"No input file provided"}\<newline>''\<close>
  by (simp add: console_line_def stringify_error_object_def json_quote_def json_escape_def)

lemma error_line:
  \<open>console_line (Some (stringify_error_object m)) = ''{"error":'' @ json_quote m @ ''}\<newline>''\<close>
  by (simp add: console_line_def stringify_error_object_def)

lemma wrapper_no_path:
  "inputPath e = None \<or> inputPath e = Some [] \<Longrightarrow> wrapper e = no_input"
  by (auto simp: wrapper_def)

lemma wrapper_returns:
  assumes "inputPath e = Some p" "p \<noteq> []" "readFileSync e p = Inr t"
    and "decode e t = Inr v" "JSON_stringify e v = Inr js"
  shows "wrapper e = ([ReadFile p, WriteStdout (console_line js)], Returned)"
  using assms by (simp add: wrapper_def try_block_def)

lemma wrapper_catches:
  assumes "inputPath e = Some p" "p \<noteq> []" "try_block e p = ([ReadFile p], Inl x)"
    and "toString x = Some m"
  shows "wrapper e
           = ([ReadFile p, WriteStderr (console_line (Some (stringify_error_object m)))], Exit 1)"
  using assms by (simp add: wrapper_def catch_block_def)

lemma wrapper_cases:
  "wrapper e = no_input \<and> (inputPath e = None \<or> inputPath e = Some [])
   \<or> (\<exists>p l. inputPath e = Some p \<and> p \<noteq> [] \<and> l \<noteq> [] \<and>
         (wrapper e = ([ReadFile p, WriteStdout l], Returned)
          \<or> wrapper e = ([ReadFile p, WriteStderr l], Exit 1)
          \<or> wrapper e = ([ReadFile p], Uncaught)))"
proof (cases "inputPath e")
  case None
  then show ?thesis by (simp add: wrapper_no_path)
next
  case (Some p)
  show ?thesis
  proof (cases "p = []")
    case True
    with Some show ?thesis by (simp add: wrapper_no_path)
  next
    case False
    with Some show ?thesis
      by (auto simp: wrapper_def try_block_def catch_block_def console_line_nonempty
               split: sum.splits option.splits)
  qed
qed


subsection \<open>The silent decode capability\<close>

lemma try_block_silent: "try_block_with silent e p = try_block e p"
  by (simp add: try_block_with_def try_block_def silent_def split: sum.splits)

lemma wrapper_silent: "wrapper_with silent e = wrapper e"
  unfolding wrapper_with_def wrapper_def try_block_silent by (rule refl)

subsection \<open>Observations of a run with a given script result\<close>

lemma observe_exit:
  "wrapper e = (evs, Exit n) \<Longrightarrow>
     process_events report e = evs \<and> exit_status e = n"
  by (simp add: process_events_def exit_status_def)

lemma observe_returned:
  "wrapper e = (evs, Returned) \<Longrightarrow>
     process_events report e = evs \<and> exit_status e = 0"
  by (simp add: process_events_def exit_status_def)

lemma observe_uncaught:
  "wrapper e = (evs, Uncaught) \<Longrightarrow>
     process_events report e = evs @ [WriteStderr (report @ [CHR 0x0A])] \<and> exit_status e = 1"
  by (simp add: process_events_def exit_status_def)

lemma observe_no_input:
  assumes "wrapper e = no_input"
  shows \<open>process_events report e = [WriteStderr ''{"error":"No input file provided"}\<newline>'']
         \<and> exit_status e = 1\<close>
  using observe_exit [of e _ 1 report] assms by (simp add: no_input_def no_input_line)

lemma error_toString_contains: "sublist msg (error_toString name msg)"
proof -
  have "sublist msg ((name @ '': '') @ msg)" by (rule sublist_append_leftI)
  then show ?thesis by (simp add: error_toString_def)
qed

section \<open>The claims\<close>

subsection \<open>C1: no path argument\<close>

text \<open>
  C1. When the argument vector has no element after the program name
  (\<^verbatim>\<open>process.argv\<close> has at most the two entries of the runtime and the script), the
  adapter performs a single effect: it writes the JSON object with the one key
  \<^verbatim>\<open>error\<close> and the value \<^verbatim>\<open>No input file provided\<close>, followed by a newline, to
  standard error. Standard output stays empty, no file is read, and the exit status
  is 1. The bytes are those \<^verbatim>\<open>JSON.stringify\<close> produces, without a space after the
  colon.
\<close>

theorem C1_no_argument:
  assumes "length (argv e) \<le> 2"
  shows \<open>process_events report e = [WriteStderr ''{"error":"No input file provided"}\<newline>'']
         \<and> stderr report e = ''{"error":"No input file provided"}\<newline>''
         \<and> stdout report e = []
         \<and> exit_status e = 1\<close>
proof -
  from assms have "inputPath e = None" by (simp add: inputPath_def)
  then have "wrapper e = no_input" by (simp add: wrapper_no_path)
  from observe_no_input [OF this, of report] show ?thesis
    by (simp add: stderr_def stdout_def)
qed

theorem C1_no_argument_witness:
  \<open>length (argv (env_of [])) \<le> 2
   \<and> stderr ''trace'' (env_of []) = ''{"error":"No input file provided"}\<newline>''
   \<and> stdout ''trace'' (env_of []) = []
   \<and> exit_status (env_of []) = 1\<close>
  using C1_no_argument [of "env_of []" "''trace''"] by (simp add: env_of_def)

subsection \<open>C2: successful decode\<close>

text \<open>
  C2. With a path argument naming a file that is read as the text \<open>t\<close>, a decode
  capability that maps \<open>t\<close> to the value \<open>v\<close>, and \<open>s\<close> the JSON serialisation of \<open>v\<close>,
  standard output is exactly \<open>s\<close> followed by a newline, standard error is empty, and
  the exit status is 0, the status of a script that returns without setting one.
\<close>

theorem C2_successful_decode:
  assumes "inputPath e = Some p" and "p \<noteq> []"
    and "readFileSync e p = Inr t"
    and "decode e t = Inr v"
    and "JSON_stringify e v = Inr (Some s)"
  shows "stdout report e = s @ ''\<newline>'' \<and> stderr report e = [] \<and> exit_status e = 0"
proof -
  from assms have "wrapper e = ([ReadFile p, WriteStdout (console_line (Some s))], Returned)"
    by (rule wrapper_returns)
  from observe_returned [OF this, of report] show ?thesis
    by (simp add: stdout_def stderr_def console_line_def)
qed

theorem C2_successful_decode_witness:
  \<open>inputPath (env_of [''notam.txt'']) = Some ''notam.txt''
   \<and> stdout ''trace'' (env_of [''notam.txt'']) = ''"A0001/24"\<newline>''
   \<and> stderr ''trace'' (env_of [''notam.txt'']) = []
   \<and> exit_status (env_of [''notam.txt'']) = 0\<close>
proof -
  have p: "inputPath (env_of [''notam.txt'']) = Some ''notam.txt''"
    by (simp add: env_of_def inputPath_def)
  have r: "readFileSync (env_of [''notam.txt'']) ''notam.txt'' = Inr ''A0001/24 NOTAMN''"
    by (simp add: env_of_def sample_read_def)
  have d: "decode (env_of [''notam.txt'']) ''A0001/24 NOTAMN'' = Inr (Decoded ''A0001/24'')"
    by (simp add: env_of_def sample_decode_def)
  have j: \<open>JSON_stringify (env_of [''notam.txt'']) (Decoded ''A0001/24'')
             = Inr (Some ''"A0001/24"'')\<close>
    by (simp add: env_of_def json_quote_def json_escape_def)
  from C2_successful_decode [OF p _ r d j, of "''trace''"] p show ?thesis by simp
qed

subsection \<open>C3: the file read fails\<close>

text \<open>
  C3. With a path argument whose read raises a failure \<open>x\<close> with string representation
  \<open>m\<close>, standard error is the JSON object with the one key \<^verbatim>\<open>error\<close> and the value
  \<open>m\<close>, followed by a newline; standard output is empty and the exit status is 1.
\<close>

theorem C3_read_failure:
  assumes "inputPath e = Some p" and "p \<noteq> []"
    and "readFileSync e p = Inl x"
    and "toString x = Some m"
  shows \<open>stderr report e = ''{"error":'' @ json_quote m @ ''}\<newline>''
         \<and> stdout report e = [] \<and> exit_status e = 1\<close>
proof -
  from assms(3) have "try_block e p = ([ReadFile p], Inl x)"
    by (simp add: try_block_def)
  from wrapper_catches [OF assms(1,2) this assms(4)] observe_exit [of e _ 1 report]
  show ?thesis by (simp add: stderr_def stdout_def error_line)
qed

theorem C3_read_failure_witness:
  \<open>inputPath (env_of [''missing.txt'']) = Some ''missing.txt''
   \<and> stderr ''trace'' (env_of [''missing.txt''])
       = ''{"error":"Error: ENOENT: no such file or directory"}\<newline>''
   \<and> stdout ''trace'' (env_of [''missing.txt'']) = []
   \<and> exit_status (env_of [''missing.txt'']) = 1\<close>
proof -
  have p: "inputPath (env_of [''missing.txt'']) = Some ''missing.txt''"
    by (simp add: env_of_def inputPath_def)
  have r: "readFileSync (env_of [''missing.txt'']) ''missing.txt''
             = Inl (ErrorObject ''Error'' ''ENOENT: no such file or directory'')"
    by (simp add: env_of_def sample_read_def)
  have s: "toString (ErrorObject ''Error'' ''ENOENT: no such file or directory'')
             = Some ''Error: ENOENT: no such file or directory''"
    by (simp add: error_toString_def)
  from C3_read_failure [OF p _ r s, of "''trace''"] p show ?thesis
    by (simp add: json_quote_def json_escape_def)
qed

subsection \<open>C4: the decode capability fails\<close>

text \<open>
  C4. When the read succeeds and the decode capability raises a failure \<open>x\<close> with string
  representation \<open>m\<close>, standard error is the JSON object with the one key \<^verbatim>\<open>error\<close>
  and the value \<open>m\<close>, followed by a newline; standard output is empty and the exit
  status is 1. When \<open>x\<close> is an error object with message \<open>msg\<close>, the string \<open>m\<close>
  contains \<open>msg\<close>.
\<close>

theorem C4_decode_failure:
  assumes "inputPath e = Some p" and "p \<noteq> []"
    and "readFileSync e p = Inr t"
    and "decode e t = Inl x"
    and "toString x = Some m"
  shows \<open>stderr report e = ''{"error":'' @ json_quote m @ ''}\<newline>''
         \<and> stdout report e = [] \<and> exit_status e = 1
         \<and> (\<forall>name msg. x = ErrorObject name msg \<longrightarrow> sublist msg m)\<close>
proof -
  from assms(3,4) have "try_block e p = ([ReadFile p], Inl x)"
    by (simp add: try_block_def)
  from wrapper_catches [OF assms(1,2) this assms(5)] observe_exit [of e _ 1 report]
  have \<open>stderr report e = ''{"error":'' @ json_quote m @ ''}\<newline>''
        \<and> stdout report e = [] \<and> exit_status e = 1\<close>
    by (simp add: stderr_def stdout_def error_line)
  moreover from assms(5) have "\<forall>name msg. x = ErrorObject name msg \<longrightarrow> sublist msg m"
    using error_toString_contains by auto
  ultimately show ?thesis by simp
qed

theorem C4_decode_failure_witness:
  \<open>inputPath (env_of [''bad.txt'']) = Some ''bad.txt''
   \<and> stderr ''trace'' (env_of [''bad.txt'']) = ''{"error":"Error: Invalid NOTAM"}\<newline>''
   \<and> stdout ''trace'' (env_of [''bad.txt'']) = []
   \<and> exit_status (env_of [''bad.txt'']) = 1
   \<and> sublist ''Invalid NOTAM'' ''Error: Invalid NOTAM''\<close>
proof -
  have p: "inputPath (env_of [''bad.txt'']) = Some ''bad.txt''"
    by (simp add: env_of_def inputPath_def)
  have r: "readFileSync (env_of [''bad.txt'']) ''bad.txt'' = Inr ''garbage''"
    by (simp add: env_of_def sample_read_def)
  have d: "decode (env_of [''bad.txt'']) ''garbage''
             = Inl (ErrorObject ''Error'' ''Invalid NOTAM'')"
    by (simp add: env_of_def sample_decode_def)
  have s: "toString (ErrorObject ''Error'' ''Invalid NOTAM'') = Some ''Error: Invalid NOTAM''"
    by (simp add: error_toString_def)
  from C4_decode_failure [OF p _ r d s, of "''trace''"] p show ?thesis
    by (simp add: json_quote_def json_escape_def)
qed

subsection \<open>C5: exactly one stream, exactly one write\<close>

text \<open>
  C5, as amended. In every run in which the decode capability writes nothing itself on
  the text that was read, and in which whatever the file read, the decode capability or
  the serialisation throws has a string conversion, exactly one of standard output and
  standard error is written to, and the run holds exactly one write. The statement is
  about the trace of the script's run, without the report the runtime prints for an
  uncaught exception. Runs in which the caught value has no string conversion are left
  open here; they are the subject of C6.
\<close>

theorem C5_one_output:
  assumes quiet: "\<And>p t. inputPath e = Some p \<Longrightarrow> readFileSync e p = Inr t \<Longrightarrow> dw t = []"
    and read_thrown:
      "\<And>p x. inputPath e = Some p \<Longrightarrow> readFileSync e p = Inl x \<Longrightarrow> toString x \<noteq> None"
    and decode_thrown:
      "\<And>p t x. inputPath e = Some p \<Longrightarrow> readFileSync e p = Inr t \<Longrightarrow> decode e t = Inl x
         \<Longrightarrow> toString x \<noteq> None"
    and stringify_thrown:
      "\<And>p t v x. inputPath e = Some p \<Longrightarrow> readFileSync e p = Inr t \<Longrightarrow> decode e t = Inr v
         \<Longrightarrow> JSON_stringify e v = Inl x \<Longrightarrow> toString x \<noteq> None"
  shows "(stdout_of (fst (wrapper_with dw e)) = []) \<noteq> (stderr_of (fst (wrapper_with dw e)) = [])
         \<and> length (filter is_write (fst (wrapper_with dw e))) = 1"
proof (cases "inputPath e")
  case None
  then show ?thesis
    by (simp add: wrapper_with_def no_input_def console_line_def)
next
  case (Some p)
  show ?thesis
  proof (cases "p = []")
    case True
    with Some show ?thesis
      by (simp add: wrapper_with_def no_input_def console_line_def)
  next
    case path: False
    show ?thesis
    proof (cases "readFileSync e p")
      case (Inl x)
      with read_thrown [OF Some] obtain m where "toString x = Some m" by blast
      with Some path Inl show ?thesis
        by (simp add: wrapper_with_def try_block_with_def catch_block_def console_line_def)
    next
      case (Inr t)
      from quiet [OF Some Inr] have dw: "dw t = []" .
      show ?thesis
      proof (cases "decode e t")
        case (Inl x)
        with decode_thrown [OF Some Inr] obtain m where "toString x = Some m" by blast
        with Some path Inr Inl dw show ?thesis
          by (simp add: wrapper_with_def try_block_with_def catch_block_def console_line_def)
      next
        case v: (Inr v)
        show ?thesis
        proof (cases "JSON_stringify e v")
          case (Inl x)
          with stringify_thrown [OF Some Inr v] obtain m where "toString x = Some m" by blast
          with Some path Inr v Inl dw show ?thesis
            by (simp add: wrapper_with_def try_block_with_def catch_block_def console_line_def)
        next
          case js: (Inr js)
          with Some path Inr v dw show ?thesis
            by (simp add: wrapper_with_def try_block_with_def console_line_def)
        qed
      qed
    qed
  qed
qed

theorem C5_one_output_witness:
  \<open>fst (wrapper_with sample_decode_writes (env_of [''bad.txt'']))
     = [ReadFile ''bad.txt'', WriteStderr ''{"error":"Error: Invalid NOTAM"}\<newline>'']
   \<and> (stdout_of (fst (wrapper_with sample_decode_writes (env_of [''bad.txt'']))) = [])
       \<noteq> (stderr_of (fst (wrapper_with sample_decode_writes (env_of [''bad.txt'']))) = [])
   \<and> length (filter is_write (fst (wrapper_with sample_decode_writes (env_of [''bad.txt''])))) = 1
   \<and> length (filter is_write (fst (wrapper_with sample_decode_writes (env_of [''missing.txt''])))) = 1
   \<and> length (filter is_write (fst (wrapper_with sample_decode_writes (env_of [''loop.txt''])))) = 1\<close>
proof -
  have one: "(stdout_of (fst (wrapper_with sample_decode_writes (env_of [f]))) = [])
       \<noteq> (stderr_of (fst (wrapper_with sample_decode_writes (env_of [f]))) = [])
     \<and> length (filter is_write (fst (wrapper_with sample_decode_writes (env_of [f])))) = 1"
    if f: "f = ''bad.txt'' \<or> f = ''missing.txt'' \<or> f = ''loop.txt''" for f
  proof (rule C5_one_output)
    show "sample_decode_writes t = []"
      if "inputPath (env_of [f]) = Some p" "readFileSync (env_of [f]) p = Inr t" for p t
      using that f
      by (auto simp: inputPath_def env_of_def sample_read_def sample_decode_writes_def)
    show "toString x \<noteq> None"
      if "inputPath (env_of [f]) = Some p" "readFileSync (env_of [f]) p = Inl x" for p x
      using that f by (auto simp: inputPath_def env_of_def sample_read_def)
    show "toString x \<noteq> None"
      if "inputPath (env_of [f]) = Some p" "readFileSync (env_of [f]) p = Inr t"
        "decode (env_of [f]) t = Inl x" for p t x
      using that f
      by (auto simp: inputPath_def env_of_def sample_read_def sample_decode_def)
    show "toString x \<noteq> None"
      if "inputPath (env_of [f]) = Some p" "readFileSync (env_of [f]) p = Inr t"
        "decode (env_of [f]) t = Inr v" "JSON_stringify (env_of [f]) v = Inl x" for p t v x
      using that f
      by (auto simp: inputPath_def env_of_def sample_read_def sample_decode_def)
  qed
  have tr: \<open>fst (wrapper_with sample_decode_writes (env_of [''bad.txt'']))
     = [ReadFile ''bad.txt'', WriteStderr ''{"error":"Error: Invalid NOTAM"}\<newline>'']\<close>
    by (simp add: wrapper_with_def try_block_with_def catch_block_def inputPath_def env_of_def
          sample_read_def sample_decode_def sample_decode_writes_def error_toString_def
          console_line_def stringify_error_object_def json_quote_def json_escape_def)
  from one [of "''bad.txt''"] one [of "''missing.txt''"] one [of "''loop.txt''"] tr
  show ?thesis by simp
qed

text \<open>
  C5 as it is stated, for every outcome of the decode capability, fails at two runs.
  When the decode capability throws \<^verbatim>\<open>null\<close>, the trace of the script is the read
  alone: no write, and nothing on either stream from the script. When the decode
  capability prints a warning on standard error and returns, the trace holds two writes
  and both streams are non-empty.
\<close>

theorem C5_counterexample:
  \<open>fst (wrapper (env_of [''null.txt''])) = [ReadFile ''null.txt'']
   \<and> length (filter is_write (fst (wrapper (env_of [''null.txt''])))) = 0
   \<and> stdout_of (fst (wrapper (env_of [''null.txt'']))) = []
   \<and> stderr_of (fst (wrapper (env_of [''null.txt'']))) = []
   \<and> fst (wrapper_with sample_decode_writes (env_of [''notam.txt'']))
       = [ReadFile ''notam.txt'', WriteStderr ''warning: unknown series\<newline>'',
          WriteStdout ''"A0001/24"\<newline>'']
   \<and> length (filter is_write (fst (wrapper_with sample_decode_writes (env_of [''notam.txt''])))) = 2
   \<and> stdout_of (fst (wrapper_with sample_decode_writes (env_of [''notam.txt'']))) \<noteq> []
   \<and> stderr_of (fst (wrapper_with sample_decode_writes (env_of [''notam.txt'']))) \<noteq> []\<close>
proof -
  have 1: "fst (wrapper (env_of [''null.txt''])) = [ReadFile ''null.txt'']"
    by (simp add: wrapper_def inputPath_def env_of_def try_block_def catch_block_def
                  sample_read_def sample_decode_def)
  have 2: \<open>fst (wrapper_with sample_decode_writes (env_of [''notam.txt'']))
       = [ReadFile ''notam.txt'', WriteStderr ''warning: unknown series\<newline>'',
          WriteStdout ''"A0001/24"\<newline>'']\<close>
    by (simp add: wrapper_with_def try_block_with_def inputPath_def env_of_def
          sample_read_def sample_decode_def sample_decode_writes_def
          console_line_def json_quote_def json_escape_def)
  show ?thesis unfolding 1 2 by simp
qed

subsection \<open>C6: every error becomes the error object\<close>

text \<open>
  C6. The claim is that every failure, of whatever kind, ends in the JSON error object
  and that no run ends with the runtime's raw report of an uncaught exception. The
  script at a decode capability that throws \<^verbatim>\<open>null\<close>: the read succeeds, the catch
  block evaluates \<^verbatim>\<open>e.toString()\<close>, which raises, nothing is written by the script,
  and the run ends with the uncaught exception; standard error holds the runtime's
  report, not the error object.
\<close>

theorem C6_null_thrown_is_uncaught:
  "wrapper (env_of [''null.txt'']) = ([ReadFile ''null.txt''], Uncaught)
   \<and> stderr report (env_of [''null.txt'']) = report @ ''\<newline>''
   \<and> stdout report (env_of [''null.txt'']) = []
   \<and> exit_status (env_of [''null.txt'']) = 1"
proof -
  have "wrapper (env_of [''null.txt'']) = ([ReadFile ''null.txt''], Uncaught)"
    by (simp add: wrapper_def inputPath_def env_of_def try_block_def catch_block_def
                  sample_read_def sample_decode_def)
  from this observe_uncaught [OF this, of report] show ?thesis
    by (simp add: stdout_def stderr_def)
qed

subsection \<open>C7: two runs\<close>

text \<open>
  C7. Two runs with the same argument vector, the same outcome of reading the file at
  the input path, the same decode capability and the same serialisation produce the
  same standard output, the same standard error and the same exit status, whatever
  else differs between the two file systems. The runtime's report of an uncaught
  exception is taken to be the same text in both runs.
\<close>

theorem C7_deterministic:
  assumes "argv e1 = argv e2"
    and "\<And>p. inputPath e1 = Some p \<Longrightarrow> readFileSync e1 p = readFileSync e2 p"
    and "decode e1 = decode e2"
    and "JSON_stringify e1 = JSON_stringify e2"
  shows "stdout report e1 = stdout report e2
         \<and> stderr report e1 = stderr report e2
         \<and> exit_status e1 = exit_status e2"
proof -
  from assms(1) have ip: "inputPath e1 = inputPath e2"
    by (simp add: inputPath_def)
  have "try_block e1 p = try_block e2 p" if "inputPath e1 = Some p" for p
    unfolding try_block_def assms(2) [OF that] assms(3,4) by (rule refl)
  with ip have "wrapper e1 = wrapper e2"
    by (simp add: wrapper_def split: option.splits)
  then show ?thesis
    by (simp add: stdout_def stderr_def exit_status_def process_events_def)
qed

theorem C7_deterministic_witness:
  "stdout ''trace'' (env_of [''notam.txt''])
     = stdout ''trace'' (other_files_env [''notam.txt''])
   \<and> stderr ''trace'' (env_of [''notam.txt''])
     = stderr ''trace'' (other_files_env [''notam.txt''])
   \<and> exit_status (env_of [''notam.txt''])
     = exit_status (other_files_env [''notam.txt''])
   \<and> readFileSync (env_of [''notam.txt'']) ''other.txt''
     \<noteq> readFileSync (other_files_env [''notam.txt'']) ''other.txt''"
proof -
  let ?e1 = "env_of [''notam.txt'']"
  let ?e2 = "other_files_env [''notam.txt'']"
  have a: "argv ?e1 = argv ?e2" by (simp add: other_files_env_def)
  have r: "readFileSync ?e1 p = readFileSync ?e2 p" if "inputPath ?e1 = Some p" for p
    using that by (auto simp: inputPath_def env_of_def other_files_env_def)
  have d: "decode ?e1 = decode ?e2" by (simp add: other_files_env_def)
  have j: "JSON_stringify ?e1 = JSON_stringify ?e2" by (simp add: other_files_env_def)
  have "readFileSync ?e1 ''other.txt'' \<noteq> readFileSync ?e2 ''other.txt''"
    by (simp add: env_of_def other_files_env_def sample_read_def)
  with C7_deterministic [OF a r d j, of "''trace''"] show ?thesis by simp
qed

subsection \<open>C8: the effects of a run\<close>

text \<open>
  C8. The effects of a run are: when a non-empty path argument was given, one read of
  the file at that path, and then in every run one write to one of the two streams;
  nothing else. So there is at most one file-system read, it happens only when a path
  argument was given, and it is of that path.
\<close>

theorem C8_effects:
  "(\<exists>w. is_write w \<and>
      process_events report e
        = (if 2 < length (argv e) \<and> argv e ! 2 \<noteq> [] then [ReadFile (argv e ! 2), w] else [w]))
   \<and> length (filter is_read (process_events report e)) \<le> 1
   \<and> (filter is_read (process_events report e) \<noteq> []
        \<longrightarrow> 2 < length (argv e) \<and> argv e ! 2 \<noteq> [])"
proof -
  have shape: "\<exists>w. is_write w \<and>
      process_events report e
        = (if 2 < length (argv e) \<and> argv e ! 2 \<noteq> [] then [ReadFile (argv e ! 2), w] else [w])"
  proof -
    consider (none) "wrapper e = no_input" "inputPath e = None \<or> inputPath e = Some []"
      | (some) p l where "inputPath e = Some p" "p \<noteq> []"
          "wrapper e = ([ReadFile p, WriteStdout l], Returned)
           \<or> wrapper e = ([ReadFile p, WriteStderr l], Exit 1)
           \<or> wrapper e = ([ReadFile p], Uncaught)"
      using wrapper_cases [of e] by blast
    then show ?thesis
    proof cases
      case none
      from none(2) have "\<not> (2 < length (argv e) \<and> argv e ! 2 \<noteq> [])"
        by (auto simp: inputPath_def split: if_splits)
      with observe_no_input [OF none(1), of report] show ?thesis by simp
    next
      case some
      from some(1,2) have g: "2 < length (argv e) \<and> argv e ! 2 \<noteq> []" and p: "argv e ! 2 = p"
        by (auto simp: inputPath_def split: if_splits)
      from some(3) have "\<exists>w. is_write w \<and> process_events report e = [ReadFile p, w]"
        using observe_returned [of e _ report] observe_exit [of e _ 1 report]
          observe_uncaught [of e _ report]
        by auto
      with g p show ?thesis by simp
    qed
  qed
  then obtain w where w: "is_write w"
    and evs: "process_events report e
        = (if 2 < length (argv e) \<and> argv e ! 2 \<noteq> [] then [ReadFile (argv e ! 2), w] else [w])"
    by blast
  from w have nr: "\<not> is_read w" by (cases w) simp_all
  from evs nr have "length (filter is_read (process_events report e)) \<le> 1"
    by (simp split: if_splits)
  moreover from evs nr have "filter is_read (process_events report e) \<noteq> []
        \<longrightarrow> 2 < length (argv e) \<and> argv e ! 2 \<noteq> []"
    by (simp split: if_splits)
  ultimately show ?thesis using shape by blast
qed

theorem C8_effects_witness:
  \<open>(\<exists>w. is_write w \<and>
      process_events ''trace'' (env_of [''notam.txt'']) = [ReadFile ''notam.txt'', w])
   \<and> filter is_read (process_events ''trace'' (env_of [''notam.txt''])) \<noteq> []
   \<and> (\<exists>w. is_write w \<and> process_events ''trace'' (env_of []) = [w])\<close>
proof -
  have 1: "(\<exists>w. is_write w \<and>
      process_events ''trace'' (env_of [''notam.txt'']) = [ReadFile ''notam.txt'', w])"
    using C8_effects [of "''trace''" "env_of [''notam.txt'']"] by (simp add: env_of_def)
  then have 2: "filter is_read (process_events ''trace'' (env_of [''notam.txt''])) \<noteq> []"
    by auto
  have 3: "\<exists>w. is_write w \<and> process_events ''trace'' (env_of []) = [w]"
    using C8_effects [of "''trace''" "env_of []"] by (simp add: env_of_def)
  from 1 2 3 show ?thesis by blast
qed

subsection \<open>C9: the empty path\<close>

text \<open>
  C9. When the path argument is present and is the empty string, the run is that of the
  missing argument: the one effect is the line with the error object for
  \<^verbatim>\<open>No input file provided\<close> on standard error, no file is read, standard output is
  empty and the exit status is 1.
\<close>

theorem C9_empty_path:
  assumes "2 < length (argv e)" and "argv e ! 2 = []"
  shows \<open>process_events report e = [WriteStderr ''{"error":"No input file provided"}\<newline>'']
         \<and> stderr report e = ''{"error":"No input file provided"}\<newline>''
         \<and> stdout report e = []
         \<and> exit_status e = 1\<close>
proof -
  from assms have "inputPath e = Some []" by (simp add: inputPath_def)
  then have "wrapper e = no_input" by (simp add: wrapper_no_path)
  from observe_no_input [OF this, of report] show ?thesis
    by (simp add: stderr_def stdout_def)
qed

theorem C9_empty_path_witness:
  \<open>2 < length (argv (env_of [[]])) \<and> argv (env_of [[]]) ! 2 = []
   \<and> stderr ''trace'' (env_of [[]]) = ''{"error":"No input file provided"}\<newline>''
   \<and> stdout ''trace'' (env_of [[]]) = []
   \<and> exit_status (env_of [[]]) = 1\<close>
  using C9_empty_path [of "env_of [[]]" "''trace''"] by (simp add: env_of_def)

subsection \<open>C10: serialisation fails\<close>

text \<open>
  C10. When the read and the decode succeed and \<^verbatim>\<open>JSON.stringify\<close> of the decoded
  value raises a failure \<open>x\<close> with string representation \<open>m\<close>, the run takes the shared
  failure path: standard error is the JSON object with the one key \<^verbatim>\<open>error\<close> and the
  value \<open>m\<close>, followed by a newline; standard output is empty and the exit status is 1.
\<close>

theorem C10_stringify_failure:
  assumes "inputPath e = Some p" and "p \<noteq> []"
    and "readFileSync e p = Inr t"
    and "decode e t = Inr v"
    and "JSON_stringify e v = Inl x"
    and "toString x = Some m"
  shows \<open>stderr report e = ''{"error":'' @ json_quote m @ ''}\<newline>''
         \<and> stdout report e = [] \<and> exit_status e = 1\<close>
proof -
  from assms(3,4,5) have "try_block e p = ([ReadFile p], Inl x)"
    by (simp add: try_block_def)
  from wrapper_catches [OF assms(1,2) this assms(6)] observe_exit [of e _ 1 report]
  show ?thesis by (simp add: stderr_def stdout_def error_line)
qed

theorem C10_stringify_failure_witness:
  \<open>inputPath (env_of [''loop.txt'']) = Some ''loop.txt''
   \<and> stderr ''trace'' (env_of [''loop.txt''])
       = ''{"error":"TypeError: Converting circular structure to JSON"}\<newline>''
   \<and> stdout ''trace'' (env_of [''loop.txt'']) = []
   \<and> exit_status (env_of [''loop.txt'']) = 1\<close>
proof -
  have p: "inputPath (env_of [''loop.txt'']) = Some ''loop.txt''"
    by (simp add: env_of_def inputPath_def)
  have r: "readFileSync (env_of [''loop.txt'']) ''loop.txt'' = Inr ''LOOP''"
    by (simp add: env_of_def sample_read_def)
  have d: "decode (env_of [''loop.txt'']) ''LOOP'' = Inr Circular"
    by (simp add: env_of_def sample_decode_def)
  have j: "JSON_stringify (env_of [''loop.txt'']) Circular
             = Inl (ErrorObject ''TypeError'' ''Converting circular structure to JSON'')"
    by (simp add: env_of_def)
  have s: "toString (ErrorObject ''TypeError'' ''Converting circular structure to JSON'')
             = Some ''TypeError: Converting circular structure to JSON''"
    by (simp add: error_toString_def)
  from C10_stringify_failure [OF p _ r d j s, of "''trace''"] p show ?thesis
    by (simp add: json_quote_def json_escape_def)
qed

end
